theory Spec2Isabelle
  imports Complex_Main
begin

section \<open>JavaScript values\<close>

text \<open>
  The handlers receive parsed JSON (\<^verbatim>\<open>express.json()\<close>) and apply JavaScript's own
  coercions to it: truthiness (\<^verbatim>\<open>!x\<close>, \<^verbatim>\<open>a || b\<close>), \<^verbatim>\<open>Array.isArray\<close>, \<^verbatim>\<open>parseFloat\<close>,
  property access. Numbers are modelled as exact rationals with the three non-finite
  values; the rounding of IEEE doubles is not modelled. A \<^typ>\<open>string\<close> stands for a
  JavaScript string, one \<^typ>\<open>char\<close> per code unit.
\<close>

datatype jsnum = Fin rat | NaN | PosInf | NegInf

datatype jsval =
    Undefined
  | Null
  | Bool bool
  | Num jsnum
  | Str string
  | Arr "jsval list"
  | Obj "(string \<times> jsval) list"

fun js_add :: "jsnum \<Rightarrow> jsnum \<Rightarrow> jsnum" where
  "js_add (Fin a) (Fin b) = Fin (a + b)"
| "js_add NaN _ = NaN"
| "js_add _ NaN = NaN"
| "js_add PosInf NegInf = NaN"
| "js_add NegInf PosInf = NaN"
| "js_add PosInf _ = PosInf"
| "js_add _ PosInf = PosInf"
| "js_add NegInf _ = NegInf"
| "js_add _ NegInf = NegInf"

fun num_truthy :: "jsnum \<Rightarrow> bool" where
  "num_truthy NaN = False"
| "num_truthy (Fin r) = (r \<noteq> 0)"
| "num_truthy _ = True"

fun truthy :: "jsval \<Rightarrow> bool" where
  "truthy Undefined = False"
| "truthy Null = False"
| "truthy (Bool b) = b"
| "truthy (Num n) = num_truthy n"
| "truthy (Str s) = (s \<noteq> [])"
| "truthy (Arr _) = True"
| "truthy (Obj _) = True"

text \<open>\<^verbatim>\<open>a || b\<close> on values, and on numbers (\<^verbatim>\<open>parseFloat(x) || 0\<close>).\<close>

definition js_or :: "jsval \<Rightarrow> jsval \<Rightarrow> jsval" where
  "js_or a b = (if truthy a then a else b)"

definition num_or :: "jsnum \<Rightarrow> jsnum \<Rightarrow> jsnum" where
  "num_or a b = (if num_truthy a then a else b)"

fun isArray :: "jsval \<Rightarrow> bool" where
  "isArray (Arr _) = True"
| "isArray _ = False"

text \<open>
  Property access \<^verbatim>\<open>v.k\<close>, also the one behind a destructuring \<^verbatim>\<open>const { k } = v\<close>.
  \<open>None\<close> is the TypeError that JavaScript throws on \<^verbatim>\<open>null\<close> and \<^verbatim>\<open>undefined\<close>. On every
  other value a missing property reads as \<^verbatim>\<open>undefined\<close>; the handlers only read names that
  no built-in prototype defines.
\<close>

fun get_prop :: "jsval \<Rightarrow> string \<Rightarrow> jsval option" where
  "get_prop Undefined k = None"
| "get_prop Null k = None"
| "get_prop (Obj kvs) k = Some (case map_of kvs k of None \<Rightarrow> Undefined | Some v \<Rightarrow> v)"
| "get_prop _ k = Some Undefined"

text \<open>
  \<^verbatim>\<open>parseFloat(v)\<close>: a number is returned as it is, a string is read by the built-in
  decimal reader (the parameter \<open>p\<close>), and any other value is first converted to a string:
  \<^verbatim>\<open>"undefined"\<close>, \<^verbatim>\<open>"null"\<close>, \<^verbatim>\<open>"true"\<close>, \<^verbatim>\<open>"[object Object]"\<close> do not start with a number,
  and an array prints its elements separated by commas, \<^verbatim>\<open>null\<close> and \<^verbatim>\<open>undefined\<close> as the
  empty string, so that only its first element can contribute.
\<close>

fun parseFloat :: "(string \<Rightarrow> jsnum) \<Rightarrow> jsval \<Rightarrow> jsnum" where
  "parseFloat p (Num n) = n"
| "parseFloat p (Str s) = p s"
| "parseFloat p (Arr (e # es)) = (if e = Null \<or> e = Undefined then NaN else parseFloat p e)"
| "parseFloat p _ = NaN"

text \<open>\<^verbatim>\<open>String(n)\<close> for a non-negative integer.\<close>

definition digit_char :: "nat \<Rightarrow> char" where
  "digit_char d = ''0123456789'' ! d"

fun string_of_nat :: "nat \<Rightarrow> string" where
  "string_of_nat n =
     (if n < 10 then [digit_char n]
      else string_of_nat (n div 10) @ [digit_char (n mod 10)])"

declare string_of_nat.simps [simp del]

section \<open>Order service\<close>

subsection \<open>Tables\<close>

text \<open>
  The two tables of \<^verbatim>\<open>initDB\<close>. A column that a statement binds from the request holds
  the bound value; the store's own conversion to the column type (the two decimals of
  \<^verbatim>\<open>DECIMAL(10,2)\<close>, the text of a \<^verbatim>\<open>VARCHAR\<close>) is not modelled, and whether a value fits the
  column is part of what the store accepts (see \<open>executes\<close> below). Of \<^verbatim>\<open>order_items\<close> the
  five columns that the insert binds are kept. An \<^verbatim>\<open>id\<close> is the text of the identifier
  as the store prints it.
\<close>

record order_row =
  id' :: string
  order_number :: string
  user_id :: jsval
  status :: jsval
  total_amount :: jsnum
  customer_email :: jsval
  created_at :: nat

record order_item =
  order_id :: string
  game_id :: jsval
  product_title :: jsval
  product_price :: jsval
  quantity :: jsval

text \<open>The committed tables and the \<^verbatim>\<open>orders_total\<close> counter of the process.\<close>

record order_state =
  orders :: "order_row list"
  order_items :: "order_item list"
  orders_total :: nat

text \<open>The statements the handlers send over their connection.\<close>

datatype stmt =
    Begin
  | Commit
  | SelectOrder string
  | SelectItems string
  | InsertOrder string jsval jsnum jsval
  | InsertItem order_item
  | UpdateOrder "jsval option" "jsval option" string
  | DeleteOrder string

text \<open>
  What the handler cannot see: the clock, the store's defaults for a new header row, the
  decimal reader behind \<^verbatim>\<open>parseFloat\<close>, and whether the store executes a statement
  (\<open>executes\<close>: connection, column types and lengths). The constraints that the schema
  spells out (primary key, \<^verbatim>\<open>UNIQUE\<close>, \<^verbatim>\<open>NOT NULL\<close>, \<^verbatim>\<open>ON DELETE CASCADE\<close>) are modelled below.
\<close>

record order_env =
  date_now :: nat
  gen_random_uuid :: string
  current_timestamp :: nat
  parse_decimal :: "string \<Rightarrow> jsnum"
  executes :: "stmt \<Rightarrow> bool"

datatype body =
    Error string
  | InvalidStatus string "string list"
  | OrderJson order_row
  | OrderWrap "order_row option"
  | OrderWithItems order_row "order_item list"
  | Deleted string order_row

datatype response = Json nat body

text \<open>The driver sends \<^verbatim>\<open>undefined\<close> as \<^verbatim>\<open>NULL\<close>.\<close>

definition pg_param :: "jsval \<Rightarrow> jsval" where
  "pg_param v = (if v = Undefined then Null else v)"

definition internal_error :: response where
  "internal_error = Json 500 (Error ''Internal server error'')"

subsection \<open>POST /orders\<close>

text \<open>
  \<^verbatim>\<open>items.reduce((sum, item) => sum + (parseFloat(item.product_price) || 0), 0)\<close>;
  \<open>None\<close> when an element is \<^verbatim>\<open>null\<close> and the property access throws.
\<close>

fun reduce_total :: "(string \<Rightarrow> jsnum) \<Rightarrow> jsnum \<Rightarrow> jsval list \<Rightarrow> jsnum option" where
  "reduce_total p sum_acc [] = Some sum_acc"
| "reduce_total p sum_acc (item # items) =
     (case get_prop item ''product_price'' of
        None \<Rightarrow> None
      | Some price \<Rightarrow> reduce_total p (js_add sum_acc (num_or (parseFloat p price) (Fin 0))) items)"

text \<open>
  The header insert: the statement binds four columns, the store fills in \<^verbatim>\<open>id\<close>,
  \<^verbatim>\<open>status\<close> and \<^verbatim>\<open>created_at\<close>, and \<^verbatim>\<open>RETURNING *\<close> gives the row back. It fails on a
  duplicate \<^verbatim>\<open>id\<close> or \<^verbatim>\<open>order_number\<close> and on a \<^verbatim>\<open>NULL\<close> \<^verbatim>\<open>user_id\<close>.
\<close>

definition insert_order ::
  "order_env \<Rightarrow> order_state \<Rightarrow> string \<Rightarrow> jsval \<Rightarrow> jsnum \<Rightarrow> jsval \<Rightarrow> (order_row \<times> order_state) option" where
  "insert_order env tx orderNum uid total' email =
     (let row = \<lparr> id' = gen_random_uuid env, order_number = orderNum, user_id = pg_param uid,
                  status = Str ''pending'', total_amount = total',
                  customer_email = pg_param email, created_at = current_timestamp env \<rparr>
      in if executes env (InsertOrder orderNum uid total' email)
            \<and> id' row \<notin> set (map id' (orders tx))
            \<and> orderNum \<notin> set (map order_number (orders tx))
            \<and> user_id row \<noteq> Null
         then Some (row, tx\<lparr>orders := orders tx @ [row]\<rparr>)
         else None)"

text \<open>
  One item insert: the five bound values, \<^verbatim>\<open>item.quantity || 1\<close> among them. \<open>None\<close> when
  reading the item throws, when the store does not execute the statement, or when
  \<^verbatim>\<open>product_title\<close> or \<^verbatim>\<open>product_price\<close> would be \<^verbatim>\<open>NULL\<close>.
\<close>

definition item_row :: "string \<Rightarrow> jsval \<Rightarrow> order_item option" where
  "item_row oid item =
     (case (get_prop item ''game_id'', get_prop item ''product_title'',
            get_prop item ''product_price'', get_prop item ''quantity'') of
        (Some g, Some t, Some p, Some q) \<Rightarrow>
          Some \<lparr> order_id = oid, game_id = pg_param g, product_title = pg_param t,
                 product_price = pg_param p, quantity = pg_param (js_or q (Num (Fin 1))) \<rparr>
      | _ \<Rightarrow> None)"

definition insert_item :: "order_env \<Rightarrow> order_state \<Rightarrow> string \<Rightarrow> jsval \<Rightarrow> order_state option" where
  "insert_item env tx oid item =
     (case item_row oid item of
        None \<Rightarrow> None
      | Some row \<Rightarrow>
          if executes env (InsertItem row)
             \<and> product_title row \<noteq> Null \<and> product_price row \<noteq> Null \<and> quantity row \<noteq> Null
          then Some (tx\<lparr>order_items := order_items tx @ [row]\<rparr>)
          else None)"

text \<open>\<^verbatim>\<open>for (const item of items) await client.query(INSERT ...)\<close>.\<close>

fun insert_items :: "order_env \<Rightarrow> order_state \<Rightarrow> string \<Rightarrow> jsval list \<Rightarrow> order_state option" where
  "insert_items env tx oid [] = Some tx"
| "insert_items env tx oid (item # items) =
     (case insert_item env tx oid item of
        None \<Rightarrow> None
      | Some tx' \<Rightarrow> insert_items env tx' oid items)"

text \<open>
  The handler, on a connection of its own. Every \<open>None\<close> below is an exception caught by
  the handler's \<^verbatim>\<open>catch\<close>, which sends \<^verbatim>\<open>ROLLBACK\<close> and answers 500: the committed state
  \<open>st\<close> is returned as it was. The validation answer 400 returns after \<^verbatim>\<open>BEGIN\<close> and
  without \<^verbatim>\<open>COMMIT\<close> or \<^verbatim>\<open>ROLLBACK\<close>; nothing has been written in the transaction then.
\<close>

definition create_order :: "order_env \<Rightarrow> order_state \<Rightarrow> jsval \<Rightarrow> response \<times> order_state" where
  "create_order env st req_body =
     (if \<not> executes env Begin then (internal_error, st)
      else case (get_prop req_body ''user_id'', get_prop req_body ''items'',
                 get_prop req_body ''customer_email'') of
        (Some uid, Some items, Some email) \<Rightarrow>
          if \<not> truthy uid \<or> \<not> truthy items \<or> \<not> isArray items
          then (Json 400 (Error ''user_id and items required''), st)
          else (case items of
            Arr its \<Rightarrow>
              (case reduce_total (parse_decimal env) (Fin 0) its of
                 None \<Rightarrow> (internal_error, st)
               | Some total' \<Rightarrow>
                   (let orderNum = ''LUGX-'' @ string_of_nat (date_now env) in
                    case insert_order env st orderNum uid total' email of
                      None \<Rightarrow> (internal_error, st)
                    | Some (order, tx) \<Rightarrow>
                        (case insert_items env tx (id' order) its of
                           None \<Rightarrow> (internal_error, st)
                         | Some tx' \<Rightarrow>
                             if executes env Commit
                             then (Json 201 (OrderJson order),
                                   tx'\<lparr>orders_total := Suc (orders_total tx')\<rparr>)
                             else (internal_error, st))))
          | _ \<Rightarrow> (internal_error, st))
      | _ \<Rightarrow> (internal_error, st))"

subsection \<open>GET /orders/:id\<close>

text \<open>\<^verbatim>\<open>SELECT * FROM orders WHERE id = $1\<close> and the same on \<^verbatim>\<open>order_items\<close> by \<^verbatim>\<open>order_id\<close>.\<close>

definition select_order :: "order_state \<Rightarrow> string \<Rightarrow> order_row list" where
  "select_order st i = filter (\<lambda>r. id' r = i) (orders st)"

definition select_items :: "order_state \<Rightarrow> string \<Rightarrow> order_item list" where
  "select_items st i = filter (\<lambda>r. order_id r = i) (order_items st)"

definition get_order :: "order_env \<Rightarrow> order_state \<Rightarrow> string \<Rightarrow> response" where
  "get_order env st i =
     (if \<not> executes env (SelectOrder i) then internal_error
      else case select_order st i of
        [] \<Rightarrow> Json 404 (Error ''Order not found'')
      | order # _ \<Rightarrow>
          if \<not> executes env (SelectItems i) then internal_error
          else Json 200 (OrderWithItems order (select_items st i)))"

subsection \<open>PUT /orders/:id\<close>

definition validStatuses :: "string list" where
  "validStatuses = [''pending'', ''confirmed'', ''processing'', ''shipped'', ''delivered'', ''cancelled'']"

text \<open>\<^verbatim>\<open>validStatuses.includes(status)\<close>: strict equality with one of the strings.\<close>

definition js_includes :: "string list \<Rightarrow> jsval \<Rightarrow> bool" where
  "js_includes xs v = (v \<in> set (map Str xs))"

text \<open>
  The dynamic \<^verbatim>\<open>UPDATE orders SET ... WHERE id = $n RETURNING *\<close>: a column is assigned
  exactly when its value was pushed, \<open>None\<close> standing for a field that was not.
\<close>

definition set_fields :: "jsval option \<Rightarrow> jsval option \<Rightarrow> order_row \<Rightarrow> order_row" where
  "set_fields s e r =
     (let r1 = (case s of None \<Rightarrow> r | Some v \<Rightarrow> r\<lparr>status := pg_param v\<rparr>)
      in case e of None \<Rightarrow> r1 | Some v \<Rightarrow> r1\<lparr>customer_email := pg_param v\<rparr>)"

definition update_order :: "order_state \<Rightarrow> jsval option \<Rightarrow> jsval option \<Rightarrow> string \<Rightarrow> order_state" where
  "update_order st s e i =
     st\<lparr>orders := map (\<lambda>r. if id' r = i then set_fields s e r else r) (orders st)\<rparr>"

definition supplied :: "jsval \<Rightarrow> jsval option" where
  "supplied v = (if v \<noteq> Undefined then Some v else None)"

definition put_order :: "order_env \<Rightarrow> order_state \<Rightarrow> string \<Rightarrow> jsval \<Rightarrow> response \<times> order_state" where
  "put_order env st i req_body =
     (case (get_prop req_body ''status'', get_prop req_body ''customer_email'') of
        (Some status', Some email) \<Rightarrow>
          if \<not> executes env (SelectOrder i) then (internal_error, st)
          else if select_order st i = [] then (Json 404 (Error ''Order not found''), st)
          else if status' \<noteq> Undefined \<and> \<not> js_includes validStatuses status'
          then (Json 400 (InvalidStatus ''Invalid status'' validStatuses), st)
          else if supplied status' = None \<and> supplied email = None
          then (Json 400 (Error ''No fields to update''), st)
          else if \<not> executes env (UpdateOrder (supplied status') (supplied email) i)
          then (internal_error, st)
          else (let st' = update_order st (supplied status') (supplied email) i
                in (Json 200 (OrderWrap (case select_order st' i of [] \<Rightarrow> None | r # _ \<Rightarrow> Some r)), st'))
      | _ \<Rightarrow> (internal_error, st))"

subsection \<open>DELETE /orders/:id\<close>

text \<open>
  \<^verbatim>\<open>DELETE FROM orders WHERE id = $1\<close>; the foreign key of \<^verbatim>\<open>order_items\<close> is declared
  \<^verbatim>\<open>ON DELETE CASCADE\<close>, so the items of the order go with it.
\<close>

definition delete_cascade :: "order_state \<Rightarrow> string \<Rightarrow> order_state" where
  "delete_cascade st i =
     st\<lparr>orders := filter (\<lambda>r. id' r \<noteq> i) (orders st),
        order_items := filter (\<lambda>r. order_id r \<noteq> i) (order_items st)\<rparr>"

definition delete_order :: "order_env \<Rightarrow> order_state \<Rightarrow> string \<Rightarrow> response \<times> order_state" where
  "delete_order env st i =
     (if \<not> executes env Begin then (internal_error, st)
      else if \<not> executes env (SelectOrder i) then (internal_error, st)
      else case select_order st i of
        [] \<Rightarrow> (Json 404 (Error ''Order not found''), st)
      | order # _ \<Rightarrow>
          if \<not> executes env (DeleteOrder i) then (internal_error, st)
          else if \<not> executes env Commit then (internal_error, st)
          else (Json 200 (Deleted ''Order deleted successfully'' order), delete_cascade st i))"

subsection \<open>The id of the request path\<close>

text \<open>
  The three handlers above are written for an identifier as the store holds it. The
  request gives the id as a path segment, and the column \<^verbatim>\<open>id\<close> is of type \<^verbatim>\<open>UUID\<close>: the
  store reads the bound text as a UUID before it looks anything up, and the statement
  fails when the text is not one. \<open>uuid_in\<close> is that reading: an optional opening brace,
  sixteen bytes of two hexadecimal digits each, a hyphen allowed after every second byte
  but the last, the closing brace if there was an opening one, and nothing more; the
  result is the identifier in the form in which the store prints it (lower case, hyphens
  after 8, 12, 16 and 20 digits), which is the form of the stored \<^verbatim>\<open>id\<close>s.
\<close>

definition is_xdigit :: "char \<Rightarrow> bool" where
  "is_xdigit c = (c \<in> set ''0123456789abcdefABCDEF'')"

definition lower_hex :: "char \<Rightarrow> char" where
  "lower_hex c = (case map_of (zip ''ABCDEF'' ''abcdef'') c of None \<Rightarrow> c | Some d \<Rightarrow> d)"

text \<open>\<open>uuid_bytes n src\<close> reads the last \<open>n\<close> of the sixteen bytes.\<close>

fun uuid_bytes :: "nat \<Rightarrow> string \<Rightarrow> (string \<times> string) option" where
  "uuid_bytes 0 src = Some ([], src)"
| "uuid_bytes (Suc n) (a # b # src) =
     (if is_xdigit a \<and> is_xdigit b
      then map_option (\<lambda>(ds, rest). (lower_hex a # lower_hex b # ds, rest))
             (uuid_bytes n
                (case src of
                   c # src' \<Rightarrow> if c = CHR ''-'' \<and> even n \<and> n \<noteq> 0 then src' else src
                 | [] \<Rightarrow> src))
      else None)"
| "uuid_bytes (Suc n) _ = None"

definition uuid_out :: "string \<Rightarrow> string" where
  "uuid_out ds = take 8 ds @ ''-'' @ take 4 (drop 8 ds) @ ''-'' @ take 4 (drop 12 ds) @ ''-'' @
                 take 4 (drop 16 ds) @ ''-'' @ drop 20 ds"

definition uuid_in :: "string \<Rightarrow> string option" where
  "uuid_in src =
     (case src of
        c # src' \<Rightarrow>
          if c = CHR ''{''
          then (case uuid_bytes 16 src' of
                  Some (ds, rest) \<Rightarrow> if rest = ''}'' then Some (uuid_out ds) else None
                | None \<Rightarrow> None)
          else (case uuid_bytes 16 src of
                  Some (ds, rest) \<Rightarrow> if rest = [] then Some (uuid_out ds) else None
                | None \<Rightarrow> None)
      | [] \<Rightarrow> None)"

text \<open>
  The routes: a path id that is not a UUID makes the first lookup throw, which each
  handler catches like any other failure of the store (with \<^verbatim>\<open>ROLLBACK\<close> where a
  transaction is open) and answers 500.
\<close>

definition get_orders_id :: "order_env \<Rightarrow> order_state \<Rightarrow> string \<Rightarrow> response" where
  "get_orders_id env st path_id =
     (case uuid_in path_id of
        None \<Rightarrow> internal_error
      | Some i \<Rightarrow> get_order env st i)"

definition put_orders_id ::
  "order_env \<Rightarrow> order_state \<Rightarrow> string \<Rightarrow> jsval \<Rightarrow> response \<times> order_state" where
  "put_orders_id env st path_id req_body =
     (case uuid_in path_id of
        None \<Rightarrow> (internal_error, st)
      | Some i \<Rightarrow> put_order env st i req_body)"

definition delete_orders_id :: "order_env \<Rightarrow> order_state \<Rightarrow> string \<Rightarrow> response \<times> order_state" where
  "delete_orders_id env st path_id =
     (case uuid_in path_id of
        None \<Rightarrow> (internal_error, st)
      | Some i \<Rightarrow> delete_order env st i)"

section \<open>Analytics service\<close>

subsection \<open>Strings and the clock\<close>

definition sq :: char where
  "sq = CHR 0x27"

text \<open>\<^verbatim>\<open>s.replace(/'/g, "''")\<close>: every single quote is doubled.\<close>

definition escape_quotes :: "string \<Rightarrow> string" where
  "escape_quotes s = concat (map (\<lambda>c. if c = sq then [sq, sq] else [c]) s)"

text \<open>\<^verbatim>\<open>s.replace(/'/g, "''").substring(0, n)\<close>, as the handler writes it for each field.\<close>

definition escaped :: "nat \<Rightarrow> string \<Rightarrow> string" where
  "escaped n s = take n (escape_quotes s)"

text \<open>
  The receiver of a string method: \<open>None\<close> is the TypeError of calling \<^verbatim>\<open>.replace\<close> on a
  value that has no such method (a number, a boolean, an array, an object).
\<close>

fun as_string :: "jsval \<Rightarrow> string option" where
  "as_string (Str s) = Some s"
| "as_string _ = None"

text \<open>The local-time getters of \<^verbatim>\<open>new Date()\<close>.\<close>

record clock =
  getFullYear :: nat
  getMonth :: nat
  getDate :: nat
  getHours :: nat
  getMinutes :: nat
  getSeconds :: nat
  getMilliseconds :: nat

text \<open>\<^verbatim>\<open>s.padStart(2, '0')\<close>.\<close>

definition padStart2 :: "string \<Rightarrow> string" where
  "padStart2 s = replicate (2 - length s) CHR ''0'' @ s"

definition format_timestamp :: "clock \<Rightarrow> string" where
  "format_timestamp now =
     string_of_nat (getFullYear now) @ ''-'' @
     padStart2 (string_of_nat (getMonth now + 1)) @ ''-'' @
     padStart2 (string_of_nat (getDate now)) @ '' '' @
     padStart2 (string_of_nat (getHours now)) @ '':'' @
     padStart2 (string_of_nat (getMinutes now)) @ '':'' @
     padStart2 (string_of_nat (getSeconds now))"

subsection \<open>The event store\<close>

text \<open>
  The service talks to the event store by posting statement texts. What the store makes
  of a text is not part of the repository and is a parameter: \<open>read_insert\<close> is the row
  it derives from an \<^verbatim>\<open>INSERT\<close> text and \<open>read_where\<close> the row predicate it derives from a
  \<^verbatim>\<open>WHERE\<close> text, \<open>None\<close> when it rejects the text. \<open>count_total n\<close> is the value that
  the store's JSON answer to a count carries for \<open>n\<close> rows (a number, or the digits as a
  string when the store quotes 64-bit integers). \<open>delivered k\<close> says whether the \<open>k\<close>-th
  request of a handler run reaches the store and is answered. The other fields are the
  clock and two built-ins: \<^verbatim>\<open>JSON.stringify\<close> and the conversion to string of a template
  literal.
\<close>

record 'r analytics_env =
  now :: clock
  json_stringify :: "jsval \<Rightarrow> string"
  to_String :: "jsval \<Rightarrow> string"
  delivered :: "nat \<Rightarrow> bool"
  read_insert :: "string \<Rightarrow> 'r option"
  read_where :: "string \<Rightarrow> ('r \<Rightarrow> bool) option"
  count_total :: "nat \<Rightarrow> jsval"

datatype abody =
    Failure string
  | Success string
  | NoneFound string nat
  | Removed string jsval jsval

text \<open>
  The \<^verbatim>\<open>details\<close> field of an error body carries the message of the caught exception and
  is not modelled.
\<close>

datatype aresponse = AJson nat abody

subsection \<open>POST /analytics\<close>

definition insert_query :: "string \<Rightarrow> string \<Rightarrow> string \<Rightarrow> string \<Rightarrow> string \<Rightarrow> string \<Rightarrow> string \<Rightarrow> string" where
  "insert_query escapedSessionId escapedUserId escapedEventType escapedPagePath escapedPageUrl
       timestamp escapedEventData =
     ''INSERT INTO lugx_analytics.events (session_id, user_id, event_type, page_path, page_url, timestamp, event_data) VALUES (''
     @ [sq] @ escapedSessionId @ [sq] @ '', '' @ [sq] @ escapedUserId @ [sq] @ '', ''
     @ [sq] @ escapedEventType @ [sq] @ '', '' @ [sq] @ escapedPagePath @ [sq] @ '', ''
     @ [sq] @ escapedPageUrl @ [sq] @ '', '' @ [sq] @ timestamp @ [sq] @ '', ''
     @ [sq] @ escapedEventData @ [sq] @ '')''"

text \<open>
  The handler returns the answer, the rows of the store afterwards and the statement
  texts it posted, in order. \<open>store_event\<close> is the part after the checks: escaping and
  truncation, the timestamp, the statement and the request to the store. The event
  counter of the metrics endpoint is left out.
\<close>

definition store_event ::
  "'r analytics_env \<Rightarrow> 'r list \<Rightarrow> string \<Rightarrow> string \<Rightarrow> string \<Rightarrow> string \<Rightarrow> string \<Rightarrow> jsval
     \<Rightarrow> aresponse \<times> 'r list \<times> string list" where
  "store_event env rows s u e p l dat =
     (let escapedSessionId = escaped 100 s;
          escapedUserId = escaped 100 u;
          escapedEventType = escaped 100 e;
          escapedPagePath = escaped 200 p;
          escapedPageUrl = escaped 500 l;
          escapedEventData = escape_quotes (json_stringify env (js_or dat (Obj [])));
          timestamp = format_timestamp (now env);
          insertQuery = insert_query escapedSessionId escapedUserId escapedEventType
                          escapedPagePath escapedPageUrl timestamp escapedEventData
      in if \<not> delivered env 0
         then (AJson 500 (Failure ''Internal server error''), rows, [insertQuery])
         else (case read_insert env insertQuery of
                 None \<Rightarrow> (AJson 500 (Failure ''Internal server error''), rows, [insertQuery])
               | Some row \<Rightarrow>
                   (AJson 200 (Success ''Event stored in ClickHouse''), rows @ [row],
                    [insertQuery])))"

definition post_analytics ::
  "'r analytics_env \<Rightarrow> 'r list \<Rightarrow> jsval \<Rightarrow> aresponse \<times> 'r list \<times> string list" where
  "post_analytics env rows req_body =
     (case (get_prop req_body ''session_id'', get_prop req_body ''user_id'',
            get_prop req_body ''event_type'', get_prop req_body ''page_path'',
            get_prop req_body ''page_url'', get_prop req_body ''data'') of
        (Some sid, Some uid, Some etype, Some ppath, Some purl, Some dat) \<Rightarrow>
          if \<not> truthy sid \<or> \<not> truthy uid \<or> \<not> truthy etype \<or> \<not> truthy ppath
          then (AJson 400 (Failure ''Missing required fields: session_id, user_id, event_type, page_path''),
                rows, [])
          else (case (as_string sid, as_string uid, as_string etype, as_string ppath,
                      as_string (js_or purl ppath)) of
            (Some s, Some u, Some e, Some p, Some l) \<Rightarrow> store_event env rows s u e p l dat
          | _ \<Rightarrow> (AJson 500 (Failure ''Internal server error''), rows, []))
      | _ \<Rightarrow> (AJson 500 (Failure ''Internal server error''), rows, []))"


subsection \<open>DELETE /analytics\<close>

text \<open>\<^verbatim>\<open>`${v}`\<close>: a string is interpolated as it is, another value through its conversion.\<close>

definition template :: "'r analytics_env \<Rightarrow> jsval \<Rightarrow> string" where
  "template env v = (case v of Str s \<Rightarrow> s | _ \<Rightarrow> to_String env v)"

text \<open>
  The three \<^verbatim>\<open>whereClause +=\<close> steps. \<^verbatim>\<open>user_id\<close> and \<^verbatim>\<open>session_id\<close> go through
  \<^verbatim>\<open>.replace\<close>, which throws on a value that is not a string; \<^verbatim>\<open>before_date\<close> is
  interpolated as it is.
\<close>

definition where_user :: "string \<Rightarrow> jsval \<Rightarrow> string option" where
  "where_user w uid =
     (if truthy uid
      then map_option (\<lambda>s. w @ '' AND user_id = '' @ [sq] @ escape_quotes s @ [sq]) (as_string uid)
      else Some w)"

definition where_session :: "string \<Rightarrow> jsval \<Rightarrow> string option" where
  "where_session w sid =
     (if truthy sid
      then map_option (\<lambda>s. w @ '' AND session_id = '' @ [sq] @ escape_quotes s @ [sq]) (as_string sid)
      else Some w)"

definition where_before :: "'r analytics_env \<Rightarrow> string \<Rightarrow> jsval \<Rightarrow> string" where
  "where_before env w before_date =
     (if truthy before_date
      then w @ '' AND timestamp < '' @ [sq] @ template env before_date @ [sq]
      else w)"

definition whereClause :: "'r analytics_env \<Rightarrow> jsval \<Rightarrow> jsval \<Rightarrow> jsval \<Rightarrow> string option" where
  "whereClause env uid sid before_date =
     (case where_user ''WHERE 1=1'' uid of
        None \<Rightarrow> None
      | Some w1 \<Rightarrow>
          (case where_session w1 sid of
             None \<Rightarrow> None
           | Some w2 \<Rightarrow> Some (where_before env w2 before_date)))"

definition countQuery :: "string \<Rightarrow> string" where
  "countQuery w = ''SELECT count() as total FROM lugx_analytics.events '' @ w @ '' FORMAT JSON''"

definition deleteQuery :: "string \<Rightarrow> string" where
  "deleteQuery w = ''ALTER TABLE lugx_analytics.events DELETE '' @ w"

definition delete_failed :: aresponse where
  "delete_failed = AJson 500 (Failure ''Failed to delete analytics data'')"

definition delete_analytics ::
  "'r analytics_env \<Rightarrow> 'r list \<Rightarrow> jsval \<Rightarrow> aresponse \<times> 'r list \<times> string list" where
  "delete_analytics env rows req_body =
     (case (get_prop req_body ''user_id'', get_prop req_body ''session_id'',
            get_prop req_body ''before_date'') of
        (Some uid, Some sid, Some before_date) \<Rightarrow>
          if \<not> truthy uid \<and> \<not> truthy sid \<and> \<not> truthy before_date
          then (AJson 400 (Failure ''At least one filter required: user_id, session_id, or before_date''),
                rows, [])
          else (case whereClause env uid sid before_date of
            None \<Rightarrow> (delete_failed, rows, [])
          | Some w \<Rightarrow>
              if \<not> delivered env 0 then (delete_failed, rows, [countQuery w])
              else (case read_where env w of
                None \<Rightarrow> (delete_failed, rows, [countQuery w])
              | Some matches \<Rightarrow>
                  (let recordsToDelete = count_total env (length (filter matches rows))
                   in if recordsToDelete = Num (Fin 0)
                      then (AJson 200 (NoneFound ''No records found matching the criteria'' 0),
                            rows, [countQuery w])
                      else if \<not> delivered env 1
                      then (delete_failed, rows, [countQuery w, deleteQuery w])
                      else (AJson 200 (Removed ''Analytics data deleted successfully''
                                          recordsToDelete req_body),
                            filter (\<lambda>r. \<not> matches r) rows, [countQuery w, deleteQuery w]))))
      | _ \<Rightarrow> (delete_failed, rows, []))"

section \<open>A store that reads the statements\<close>

text \<open>
  For evaluating the handlers on concrete requests: a store that reads the statement
  texts the way SQL is read. A text is cut into words and quoted literals; inside the
  quotes a doubled quote stands for one quote and a single quote closes the literal. An
  \<^verbatim>\<open>INSERT\<close> text gives the row of its seven literals. A \<^verbatim>\<open>WHERE\<close> text is a disjunction
  (\<^verbatim>\<open>OR\<close>) of conjunctions (\<^verbatim>\<open>AND\<close>) of comparisons (\<^verbatim>\<open>=\<close>, \<^verbatim>\<open><\<close>) between columns and
  literals; \<^verbatim>\<open>timestamp\<close> values are compared as texts of the one shape
  \<^verbatim>\<open>YYYY-MM-DD HH:MM:SS\<close>, on which the order of texts is the order in time. The theorems
  that quantify over the store do not depend on this one.
\<close>

datatype token = Word string | Lit string

datatype scan_mode = Outside | InWord string | Inside string | Closing string

fun tokens :: "scan_mode \<Rightarrow> string \<Rightarrow> token list option" where
  "tokens Outside [] = Some []"
| "tokens (InWord w) [] = Some [Word w]"
| "tokens (Inside a) [] = None"
| "tokens (Closing a) [] = Some [Lit a]"
| "tokens Outside (c # cs) =
     (if c = sq then tokens (Inside []) cs
      else if c = CHR '' '' then tokens Outside cs
      else tokens (InWord [c]) cs)"
| "tokens (InWord w) (c # cs) =
     (if c = sq then map_option ((#) (Word w)) (tokens (Inside []) cs)
      else if c = CHR '' '' then map_option ((#) (Word w)) (tokens Outside cs)
      else tokens (InWord (w @ [c])) cs)"
| "tokens (Inside a) (c # cs) =
     (if c = sq then tokens (Closing a) cs else tokens (Inside (a @ [c])) cs)"
| "tokens (Closing a) (c # cs) =
     (if c = sq then tokens (Inside (a @ [sq])) cs
      else if c = CHR '' '' then map_option ((#) (Lit a)) (tokens Outside cs)
      else map_option ((#) (Lit a)) (tokens (InWord [c]) cs))"

type_synonym event = "(string \<times> string) list"

definition columns :: "string list" where
  "columns = [''session_id'', ''user_id'', ''event_type'', ''page_path'', ''page_url'',
              ''timestamp'', ''event_data'']"

definition insert_head :: "token list" where
  "insert_head = [Word ''INSERT'', Word ''INTO'', Word ''lugx_analytics.events'',
     Word ''(session_id,'', Word ''user_id,'', Word ''event_type,'', Word ''page_path,'',
     Word ''page_url,'', Word ''timestamp,'', Word ''event_data)'', Word ''VALUES'', Word ''('']"

fun values_of :: "token list \<Rightarrow> string list option" where
  "values_of [Lit a, Word w] = (if w = '')'' then Some [a] else None)"
| "values_of (Lit a # Word w # ts) =
     (if w = '','' then map_option ((#) a) (values_of ts) else None)"
| "values_of _ = None"

definition sql_insert :: "string \<Rightarrow> event option" where
  "sql_insert text =
     (case tokens Outside text of
        None \<Rightarrow> None
      | Some ts \<Rightarrow>
          if take (length insert_head) ts = insert_head
          then (case values_of (drop (length insert_head) ts) of
                  None \<Rightarrow> None
                | Some vs \<Rightarrow> if length vs = length columns then Some (zip columns vs) else None)
          else None)"

fun split_on :: "token \<Rightarrow> token list \<Rightarrow> token list list" where
  "split_on sep [] = [[]]"
| "split_on sep (t # ts) =
     (if t = sep then [] # split_on sep ts
      else (case split_on sep ts of [] \<Rightarrow> [[t]] | g # gs \<Rightarrow> (t # g) # gs))"

fun less_string :: "string \<Rightarrow> string \<Rightarrow> bool" where
  "less_string [] [] = False"
| "less_string [] (y # ys) = True"
| "less_string (x # xs) [] = False"
| "less_string (x # xs) (y # ys) =
     ((of_char x :: nat) < of_char y \<or> (x = y \<and> less_string xs ys))"

fun operand :: "event \<Rightarrow> token \<Rightarrow> string option" where
  "operand row (Lit s) = Some s"
| "operand row (Word w) = map_of row w"

fun comparison :: "event \<Rightarrow> token list \<Rightarrow> bool" where
  "comparison row [Word w] = (w = ''1=1'')"
| "comparison row [a, Word op, b] =
     (case (operand row a, operand row b) of
        (Some x, Some y) \<Rightarrow>
          if op = ''='' then x = y else if op = ''<'' then less_string x y else False
      | _ \<Rightarrow> False)"
| "comparison row _ = False"

definition sql_where :: "string \<Rightarrow> (event \<Rightarrow> bool) option" where
  "sql_where text =
     (case tokens Outside text of
        Some (Word w # ts) \<Rightarrow>
          if w = ''WHERE''
          then Some (\<lambda>row. list_ex (\<lambda>disjunct. list_all (comparison row)
                                       (split_on (Word ''AND'') disjunct))
                               (split_on (Word ''OR'') ts))
          else None
      | _ \<Rightarrow> None)"

definition sql_store :: "event analytics_env" where
  "sql_store =
     \<lparr> now = \<lparr> getFullYear = 2026, getMonth = 10, getDate = 3, getHours = 9,
               getMinutes = 5, getSeconds = 7, getMilliseconds = 123 \<rparr>,
       json_stringify = (\<lambda>v. ''{}''),
       to_String = (\<lambda>v. []),
       delivered = (\<lambda>k. True),
       read_insert = sql_insert,
       read_where = sql_where,
       count_total = (\<lambda>n. Num (Fin (of_nat n))) \<rparr>"

section \<open>Example requests and states\<close>

definition example_id :: string where
  "example_id = ''6f1d2c3a-0b4e-4c5d-8e9f-0123456789ab''"

text \<open>The same identifier in another spelling, and a well-formed one that names no order.\<close>

definition braced_id :: string where
  "braced_id = ''{6F1D2C3A-0B4E-4C5D-8E9F-0123456789AB}''"

definition missing_id :: string where
  "missing_id = ''00000000-0000-4000-8000-000000000000''"

definition shop_env :: order_env where
  "shop_env = \<lparr> date_now = 1700000000000, gen_random_uuid = example_id,
                current_timestamp = 1700000000, parse_decimal = (\<lambda>s. NaN),
                executes = (\<lambda>q. True) \<rparr>"

definition empty_shop :: order_state where
  "empty_shop = \<lparr> orders = [], order_items = [], orders_total = 0 \<rparr>"

text \<open>The request of the specification's example: two of Game A at 19.99, one Game B at 5.00.\<close>

definition example_order :: jsval where
  "example_order =
     Obj [(''user_id'', Str ''u1''),
          (''items'', Arr [Obj [(''product_title'', Str ''Game A''),
                                (''product_price'', Num (Fin 19.99)),
                                (''quantity'', Num (Fin 2))],
                           Obj [(''product_title'', Str ''Game B''),
                                (''product_price'', Num (Fin 5.00)),
                                (''quantity'', Num (Fin 1))]])]"

definition example_header :: order_row where
  "example_header =
     \<lparr> id' = example_id, order_number = ''LUGX-1700000000000'', user_id = Str ''u1'',
       status = Str ''pending'', total_amount = Fin 24.99, customer_email = Null,
       created_at = 1700000000 \<rparr>"

definition example_items :: "order_item list" where
  "example_items =
     [\<lparr> order_id = example_id, game_id = Null, product_title = Str ''Game A'',
        product_price = Num (Fin 19.99), quantity = Num (Fin 2) \<rparr>,
      \<lparr> order_id = example_id, game_id = Null, product_title = Str ''Game B'',
        product_price = Num (Fin 5.00), quantity = Num (Fin 1) \<rparr>]"

definition stocked_shop :: order_state where
  "stocked_shop = \<lparr> orders = [example_header], order_items = example_items, orders_total = 1 \<rparr>"

definition empty_items_order :: jsval where
  "empty_items_order = Obj [(''user_id'', Str ''u1''), (''items'', Arr [])]"

definition missing_items_order :: jsval where
  "missing_items_order = Obj [(''user_id'', Str ''u1'')]"

text \<open>Five items; the third has no \<^verbatim>\<open>product_title\<close>, which the column does not admit.\<close>

definition priced_item :: "string \<Rightarrow> jsval" where
  "priced_item title = Obj [(''product_title'', Str title), (''product_price'', Num (Fin 10))]"

definition five_items :: "jsval list" where
  "five_items = [priced_item ''A'', priced_item ''B'', Obj [(''product_price'', Num (Fin 10))],
                 priced_item ''D'', priced_item ''E'']"

definition five_items_order :: jsval where
  "five_items_order = Obj [(''user_id'', Str ''u1''), (''items'', Arr five_items)]"

definition shipped_header :: order_row where
  "shipped_header = example_header\<lparr>status := Str ''shipped''\<rparr>"

text \<open>Analytics: a stored event of 2026, and the requests evaluated below.\<close>

definition new_row :: event where
  "new_row = zip columns [''s1'', ''u1'', ''page_view'', ''/shop'', ''/shop'',
                          ''2026-11-03 09:05:07'', ''{}'']"

text \<open>A bulk delete whose \<^verbatim>\<open>before_date\<close> carries a quote.\<close>

definition injected_date :: string where
  "injected_date = ''2000-01-01 00:00:00' OR '1'='1''"

definition injected_delete :: jsval where
  "injected_delete = Obj [(''before_date'', Str injected_date)]"

definition injected_where :: string where
  "injected_where = ''WHERE 1=1 AND timestamp < '2000-01-01 00:00:00' OR '1'='1'' @ [sq]"

definition plain_delete :: jsval where
  "plain_delete = Obj [(''before_date'', Str ''2000-01-01 00:00:00'')]"

definition plain_where :: string where
  "plain_where = ''WHERE 1=1 AND timestamp < '2000-01-01 00:00:00'' @ [sq]"

definition other_user_delete :: jsval where
  "other_user_delete = Obj [(''user_id'', Str ''u2'')]"

definition other_user_where :: string where
  "other_user_where = ''WHERE 1=1 AND user_id = 'u2'' @ [sq]"

text \<open>
  The same store with its JSON answers in the form in which 64-bit integers are quoted:
  a count, which is of type \<^verbatim>\<open>UInt64\<close>, arrives as the string of its digits.
\<close>

definition quoting_store :: "event analytics_env" where
  "quoting_store = sql_store\<lparr>count_total := (\<lambda>n. Str (string_of_nat n))\<rparr>"

text \<open>An event whose \<^verbatim>\<open>session_id\<close> is the hundred characters \<^verbatim>\<open>a'a'a'...a'\<close>.\<close>

definition quoted_id :: string where
  "quoted_id = concat (replicate 50 [CHR ''a'', sq])"

definition quoted_event :: jsval where
  "quoted_event = Obj [(''session_id'', Str quoted_id), (''user_id'', Str ''u1''),
                       (''event_type'', Str ''page_view''), (''page_path'', Str ''/shop'')]"





section \<open>Properties of the order service\<close>

subsection \<open>Auxiliary facts\<close>

lemma string_of_date_now: "string_of_nat 1700000000000 = ''1700000000000''"
  by (simp add: string_of_nat.simps digit_char_def)

lemmas create_order_defs =
  create_order_def insert_order_def insert_item_def item_row_def pg_param_def js_or_def
  num_or_def Let_def internal_error_def

text \<open>
  What the \<^verbatim>\<open>reduce\<close> computes on items with numeric prices: the sum of the prices,
  whatever the quantities are.
\<close>

lemma reduce_total_prices:
  "reduce_total p (Fin a)
     (map (\<lambda>(price, q). Obj [(''product_price'', Num (Fin price)), (''quantity'', q)]) xs)
   = Some (Fin (a + sum_list (map fst xs)))"
  by (induction xs arbitrary: a) (auto simp: num_or_def add.assoc)

lemma insert_item_state:
  "insert_item env tx oid item = None \<Longrightarrow> insert_item env tx' oid item = None"
  by (auto simp: insert_item_def split: option.splits if_splits)

lemma insert_items_fail:
  "k < length its \<Longrightarrow> insert_item env tx0 oid (its ! k) = None \<Longrightarrow>
   insert_items env tx oid its = None"
proof (induction its arbitrary: tx k)
  case Nil
  then show ?case by simp
next
  case (Cons a its)
  show ?case
  proof (cases k)
    case 0
    with Cons.prems have "insert_item env tx oid a = None"
      using insert_item_state by auto
    then show ?thesis by simp
  next
    case (Suc j)
    with Cons.prems have "j < length its" "insert_item env tx0 oid (its ! j) = None"
      by auto
    then have "\<And>t. insert_items env t oid its = None"
      using Cons.IH by blast
    then show ?thesis by (simp split: option.splits)
  qed
qed

lemma insert_order_id:
  "insert_order env st n u t e = Some (order, tx) \<Longrightarrow> id' order = gen_random_uuid env"
  by (auto simp: insert_order_def Let_def split: if_splits)

text \<open>An order is created whole or not at all.\<close>

lemma insert_items_appends:
  "insert_items env tx oid its = Some tx' \<Longrightarrow>
   orders tx' = orders tx \<and> orders_total tx' = orders_total tx \<and>
   (\<exists>rows. order_items tx' = order_items tx @ rows \<and> length rows = length its \<and>
           (\<forall>r \<in> set rows. order_id r = oid))"
proof (induction its arbitrary: tx)
  case Nil
  then show ?case by simp
next
  case (Cons a its)
  from Cons.prems obtain tx1 where a: "insert_item env tx oid a = Some tx1"
    and r: "insert_items env tx1 oid its = Some tx'"
    by (auto split: option.splits)
  from a obtain row where row: "order_items tx1 = order_items tx @ [row]" "order_id row = oid"
    "orders tx1 = orders tx" "orders_total tx1 = orders_total tx"
    by (auto simp: insert_item_def item_row_def split: option.splits if_splits)
  from Cons.IH[OF r] obtain rows where rows: "order_items tx' = order_items tx1 @ rows"
    "length rows = length its" "\<forall>r \<in> set rows. order_id r = oid"
    and keep: "orders tx' = orders tx1" "orders_total tx' = orders_total tx1"
    by blast
  have "order_items tx' = order_items tx @ (row # rows)"
    using row rows by simp
  moreover have "length (row # rows) = length (a # its)"
    using rows by simp
  moreover have "\<forall>r \<in> set (row # rows). order_id r = oid"
    using row rows by simp
  ultimately show ?case
    using row keep by metis
qed

lemma create_order_all_or_nothing:
  assumes "create_order env st req_body = (res, st')"
  shows "st' = st \<or>
         (\<exists>order rows its. res = Json 201 (OrderJson order) \<and>
            get_prop req_body ''items'' = Some (Arr its) \<and>
            orders st' = orders st @ [order] \<and>
            order_items st' = order_items st @ rows \<and> length rows = length its \<and>
            (\<forall>r \<in> set rows. order_id r = id' order) \<and>
            id' order \<notin> set (map id' (orders st)) \<and>
            orders_total st' = Suc (orders_total st))"
proof (cases "st' = st")
  case True
  then show ?thesis by simp
next
  case False
  with assms obtain uid its email total' order tx tx'
    where its: "get_prop req_body ''items'' = Some (Arr its)"
      and hdr: "insert_order env st (''LUGX-'' @ string_of_nat (date_now env)) uid total' email
                 = Some (order, tx)"
      and items: "insert_items env tx (id' order) its = Some tx'"
      and res: "res = Json 201 (OrderJson order)"
      and st': "st' = tx'\<lparr>orders_total := Suc (orders_total tx')\<rparr>"
    by (auto simp: create_order_def Let_def split: if_splits option.splits jsval.splits)
  from hdr have tx: "orders tx = orders st @ [order]" "order_items tx = order_items st"
    "orders_total tx = orders_total st" "id' order \<notin> set (map id' (orders st))"
    by (auto simp: insert_order_def Let_def split: if_splits)
  from insert_items_appends[OF items] tx st' res its show ?thesis
    by auto
qed

text \<open>The total of a created order is the result of the \<^verbatim>\<open>reduce\<close> over its items.\<close>

lemma create_order_total:
  assumes "create_order env st req_body = (Json 201 (OrderJson order), st')"
  shows "\<exists>its. get_prop req_body ''items'' = Some (Arr its) \<and>
           reduce_total (parse_decimal env) (Fin 0) its = Some (total_amount order)"
proof -
  from assms obtain uid its email total' tx
    where its: "get_prop req_body ''items'' = Some (Arr its)"
      and tot: "reduce_total (parse_decimal env) (Fin 0) its = Some total'"
      and hdr: "insert_order env st (''LUGX-'' @ string_of_nat (date_now env)) uid total' email
                 = Some (order, tx)"
    by (auto simp: create_order_def Let_def internal_error_def
        split: if_splits option.splits jsval.splits)
  from hdr have "total_amount order = total'"
    by (auto simp: insert_order_def Let_def split: if_splits)
  with its tot show ?thesis by simp
qed

text \<open>The primary key of \<^verbatim>\<open>orders\<close> is kept by order creation.\<close>

lemma create_order_keeps_key:
  assumes "distinct (map id' (orders st))"
  shows "distinct (map id' (orders (snd (create_order env st req_body))))"
proof -
  obtain res st' where r: "create_order env st req_body = (res, st')"
    by (cases "create_order env st req_body")
  from create_order_all_or_nothing[OF r] assms show ?thesis
    using r by auto
qed

lemma set_fields_id: "id' (set_fields s e r) = id' r"
  by (simp add: set_fields_def Let_def split: option.splits)

lemma filter_map_same:
  "(\<And>r. id' (f r) = id' r) \<Longrightarrow>
   filter (\<lambda>r. id' r = i) (map (\<lambda>r. if id' r = i then f r else r) xs)
     = map f (filter (\<lambda>r. id' r = i) xs)"
  by (induction xs) auto

lemma filter_map_other:
  "(\<And>r. id' (f r) = id' r) \<Longrightarrow>
   filter (\<lambda>r. id' r \<noteq> i) (map (\<lambda>r. if id' r = i then f r else r) xs)
     = filter (\<lambda>r. id' r \<noteq> i) xs"
  by (induction xs) auto

lemma select_update:
  "select_order (update_order st s e i) i = map (set_fields s e) (select_order st i)"
  by (simp add: select_order_def update_order_def filter_map_same set_fields_id)

lemma select_distinct:
  "distinct (map id' xs) \<Longrightarrow> r \<in> set xs \<Longrightarrow> filter (\<lambda>x. id' x = id' r) xs = [r]"
proof (induction xs)
  case Nil
  then show ?case by simp
next
  case (Cons a xs)
  show ?case
  proof (cases "a = r")
    case True
    with Cons.prems have "\<forall>x\<in>set xs. id' x \<noteq> id' r"
      by (auto simp: image_iff)
    then have "filter (\<lambda>x. id' x = id' r) xs = []"
      by (simp add: filter_empty_conv)
    with True show ?thesis by simp
  next
    case False
    with Cons.prems have "r \<in> set xs" "id' a \<noteq> id' r"
      by (auto simp: image_iff)
    with Cons show ?thesis by simp
  qed
qed

lemma length_filter_split:
  "length (filter (\<lambda>x. \<not> P x) xs) + length (filter P xs) = length xs"
  by (induction xs) auto

subsection \<open>Order creation\<close>

text \<open>
  C1. The claim: the persisted total of a created order is the sum over its items of
  price times quantity, and the example request (two at 19.99, one at 5.00) yields 44.98.
  The handler adds up the prices and leaves the quantities out: on the example request
  it answers 201 with a total of 24.99, and stores that total next to the two item rows
  with their quantities 2 and 1.
\<close>

theorem create_order_total_ignores_quantity:
  "create_order shop_env empty_shop example_order
     = (Json 201 (OrderJson example_header), stocked_shop) \<and>
   total_amount example_header = Fin 24.99 \<and>
   map total_amount (orders stocked_shop) = [Fin 24.99] \<and>
   map quantity (order_items stocked_shop) = [Num (Fin 2), Num (Fin 1)] \<and>
   (19.99 * 2 + 5.00 * 1 :: rat) = 44.98"
  by (simp add: create_order_defs shop_env_def empty_shop_def example_order_def
      example_header_def example_items_def stocked_shop_def string_of_date_now)

theorem create_order_total_ignores_quantity_witness:
  "fst (create_order shop_env empty_shop example_order) = Json 201 (OrderJson example_header) \<and>
   total_amount example_header \<noteq> Fin 44.98"
  using create_order_total_ignores_quantity by simp

text \<open>
  C2, as amended. A request whose \<^verbatim>\<open>items\<close> is missing or is not a list persists nothing,
  and is answered 400 once the transaction has been opened. (An empty list is a list:
  the handler accepts it, see the counterexample.)
\<close>

theorem create_order_rejects_non_list:
  assumes "get_prop req_body ''items'' = Some items" and "\<not> isArray items"
  shows "snd (create_order env st req_body) = st \<and>
         (executes env Begin \<longrightarrow>
            create_order env st req_body = (Json 400 (Error ''user_id and items required''), st))"
  using assms by (cases req_body) (auto simp: create_order_def)

theorem create_order_rejects_non_list_witness:
  "get_prop missing_items_order ''items'' = Some Undefined \<and> \<not> isArray Undefined \<and>
   executes shop_env Begin \<and>
   snd (create_order shop_env stocked_shop missing_items_order) = stocked_shop \<and>
   create_order shop_env stocked_shop missing_items_order
     = (Json 400 (Error ''user_id and items required''), stocked_shop)"
proof -
  have h: "get_prop missing_items_order ''items'' = Some Undefined"
    by (simp add: missing_items_order_def)
  have n: "\<not> isArray Undefined"
    by simp
  have b: "executes shop_env Begin"
    by (simp add: shop_env_def)
  from create_order_rejects_non_list[OF h n, of shop_env stocked_shop] b h n
  show ?thesis by simp
qed

text \<open>
  The claim as stated fails on an empty list: the handler answers 201 and commits a
  header row with total 0 and no item.
\<close>

theorem create_order_accepts_empty_list:
  "get_prop empty_items_order ''items'' = Some (Arr []) \<and>
   create_order shop_env empty_shop empty_items_order
     = (Json 201 (OrderJson (example_header\<lparr>total_amount := Fin 0\<rparr>)),
        \<lparr> orders = [example_header\<lparr>total_amount := Fin 0\<rparr>], order_items = [],
          orders_total = 1 \<rparr>)"
  by (simp add: create_order_defs shop_env_def empty_shop_def empty_items_order_def
      example_header_def string_of_date_now)

text \<open>
  C3. When a request passes validation and the insertion of one of its items fails
  (the store does not execute it, or the row violates a \<^verbatim>\<open>NOT NULL\<close> column), the handler
  answers 500 and the committed state is the one before the request: neither the header
  row nor any item row of the attempt is in it.
\<close>

theorem create_order_rolls_back:
  assumes "get_prop req_body ''user_id'' = Some uid" and "truthy uid"
      and "get_prop req_body ''items'' = Some (Arr its)"
      and "k < length its"
      and "insert_item env tx (gen_random_uuid env) (its ! k) = None"
  shows "create_order env st req_body = (Json 500 (Error ''Internal server error''), st)"
proof -
  have "\<And>t. insert_items env t (gen_random_uuid env) its = None"
    using assms(4,5) insert_items_fail by blast
  then show ?thesis
    using assms(1-3)
    by (auto simp: create_order_def Let_def internal_error_def split: option.splits
        dest: insert_order_id)
qed

text \<open>
  Five items, the third without a title: the header insert on its own succeeds, the
  third item insert fails, and nothing of the attempt remains.
\<close>

theorem create_order_rolls_back_witness:
  "get_prop five_items_order ''user_id'' = Some (Str ''u1'') \<and> truthy (Str ''u1'') \<and>
   get_prop five_items_order ''items'' = Some (Arr five_items) \<and>
   2 < length five_items \<and>
   insert_order shop_env empty_shop ''LUGX-1700000000000'' (Str ''u1'') (Fin 50) Undefined \<noteq> None \<and>
   insert_item shop_env empty_shop (gen_random_uuid shop_env) (five_items ! 2) = None \<and>
   create_order shop_env empty_shop five_items_order
     = (Json 500 (Error ''Internal server error''), empty_shop)"
proof -
  have u: "get_prop five_items_order ''user_id'' = Some (Str ''u1'')"
    by (simp add: five_items_order_def)
  have t: "truthy (Str ''u1'')"
    by simp
  have i: "get_prop five_items_order ''items'' = Some (Arr five_items)"
    by (simp add: five_items_order_def)
  have k: "2 < length five_items"
    by (simp add: five_items_def)
  have f: "insert_item shop_env empty_shop (gen_random_uuid shop_env) (five_items ! 2) = None"
    by (simp add: five_items_def insert_item_def item_row_def pg_param_def)
  have hdr: "insert_order shop_env empty_shop ''LUGX-1700000000000'' (Str ''u1'') (Fin 50) Undefined \<noteq> None"
    by (simp add: insert_order_def shop_env_def empty_shop_def pg_param_def Let_def)
  from create_order_rolls_back[OF u t i k f, of empty_shop] u t i k f hdr
  show ?thesis by simp
qed

subsection \<open>Order update\<close>

text \<open>The rejections of the update handler, for an identifier as the store holds it.\<close>

lemma put_order_rejects:
  assumes "get_prop req_body ''status'' = Some s"
      and "get_prop req_body ''customer_email'' = Some e"
      and "executes env (SelectOrder i)"
  shows "(select_order st i = [] \<longrightarrow>
            put_order env st i req_body = (Json 404 (Error ''Order not found''), st)) \<and>
         (select_order st i \<noteq> [] \<longrightarrow> s \<noteq> Undefined \<longrightarrow>
            s \<notin> Str ` {''pending'', ''confirmed'', ''processing'', ''shipped'', ''delivered'',
                        ''cancelled''} \<longrightarrow>
            put_order env st i req_body =
              (Json 400 (InvalidStatus ''Invalid status''
                 [''pending'', ''confirmed'', ''processing'', ''shipped'', ''delivered'',
                  ''cancelled'']), st)) \<and>
         (select_order st i \<noteq> [] \<longrightarrow> s = Undefined \<longrightarrow> e = Undefined \<longrightarrow>
            put_order env st i req_body = (Json 400 (Error ''No fields to update''), st))"
  using assms by (auto simp: put_order_def js_includes_def validStatuses_def supplied_def)

text \<open>A successful update through the route is a successful update of the order it names.\<close>

lemma put_orders_id_ok:
  "put_orders_id env st path_id req_body = (Json 200 b, st') \<Longrightarrow>
   \<exists>i. uuid_in path_id = Some i \<and> put_order env st i req_body = (Json 200 b, st')"
  by (auto simp: put_orders_id_def internal_error_def split: option.splits)

text \<open>
  C4, as amended. For a request body that is an object: a path id that is not a UUID is
  answered 500. For a path id that is a UUID and a lookup that the store answers, the
  rejections come in the order in which the handler checks them: an id that names no
  order is answered 404; for an existing order, a supplied status outside the six values
  is answered 400 with the list of the six values in the body; for an existing order, a
  request that supplies neither \<^verbatim>\<open>status\<close> nor \<^verbatim>\<open>customer_email\<close> is answered 400. In all
  these cases the state is returned unchanged.
\<close>

theorem put_orders_id_rejections:
  assumes "get_prop req_body ''status'' = Some s"
      and "get_prop req_body ''customer_email'' = Some e"
  shows "(uuid_in path_id = None \<longrightarrow>
            put_orders_id env st path_id req_body
              = (Json 500 (Error ''Internal server error''), st)) \<and>
         (\<forall>i. uuid_in path_id = Some i \<and> executes env (SelectOrder i) \<longrightarrow>
            (select_order st i = [] \<longrightarrow>
               put_orders_id env st path_id req_body = (Json 404 (Error ''Order not found''), st)) \<and>
            (select_order st i \<noteq> [] \<longrightarrow> s \<noteq> Undefined \<longrightarrow>
               s \<notin> Str ` {''pending'', ''confirmed'', ''processing'', ''shipped'', ''delivered'',
                           ''cancelled''} \<longrightarrow>
               put_orders_id env st path_id req_body =
                 (Json 400 (InvalidStatus ''Invalid status''
                    [''pending'', ''confirmed'', ''processing'', ''shipped'', ''delivered'',
                     ''cancelled'']), st)) \<and>
            (select_order st i \<noteq> [] \<longrightarrow> s = Undefined \<longrightarrow> e = Undefined \<longrightarrow>
               put_orders_id env st path_id req_body
                 = (Json 400 (Error ''No fields to update''), st)))"
proof (intro conjI allI impI)
  assume "uuid_in path_id = None"
  then show "put_orders_id env st path_id req_body
               = (Json 500 (Error ''Internal server error''), st)"
    by (simp add: put_orders_id_def internal_error_def)
next
  fix i
  assume h: "uuid_in path_id = Some i \<and> executes env (SelectOrder i)"
  then have route: "put_orders_id env st path_id req_body = put_order env st i req_body"
    by (simp add: put_orders_id_def)
  note inner = put_order_rejects[OF assms, where i = i and st = st and env = env]
  {
    assume "select_order st i = []"
    with inner h show "put_orders_id env st path_id req_body
                         = (Json 404 (Error ''Order not found''), st)"
      by (simp add: route)
  next
    assume "select_order st i \<noteq> []" "s \<noteq> Undefined"
      "s \<notin> Str ` {''pending'', ''confirmed'', ''processing'', ''shipped'', ''delivered'',
                   ''cancelled''}"
    with inner h show "put_orders_id env st path_id req_body =
                 (Json 400 (InvalidStatus ''Invalid status''
                    [''pending'', ''confirmed'', ''processing'', ''shipped'', ''delivered'',
                     ''cancelled'']), st)"
      by (simp add: route)
  next
    assume "select_order st i \<noteq> []" "s = Undefined" "e = Undefined"
    with inner h show "put_orders_id env st path_id req_body
                         = (Json 400 (Error ''No fields to update''), st)"
      by (simp add: route)
  }
qed

text \<open>
  A well-formed id that names no order; the id of the example order, in another
  spelling, with a status outside the six values; the same id without any field.
\<close>

theorem put_orders_id_rejections_witness:
  "uuid_in missing_id = Some missing_id \<and> select_order stocked_shop missing_id = [] \<and>
   put_orders_id shop_env stocked_shop missing_id (Obj [(''status'', Str ''shipped'')])
     = (Json 404 (Error ''Order not found''), stocked_shop) \<and>
   uuid_in braced_id = Some example_id \<and>
   select_order stocked_shop example_id = [example_header] \<and>
   put_orders_id shop_env stocked_shop braced_id (Obj [(''status'', Str ''refunded'')])
     = (Json 400 (InvalidStatus ''Invalid status''
          [''pending'', ''confirmed'', ''processing'', ''shipped'', ''delivered'',
           ''cancelled'']), stocked_shop) \<and>
   put_orders_id shop_env stocked_shop braced_id (Obj [])
     = (Json 400 (Error ''No fields to update''), stocked_shop)"
proof -
  have x: "executes shop_env (SelectOrder i)" for i
    by (simp add: shop_env_def)
  have um: "uuid_in missing_id = Some missing_id"
    and ub: "uuid_in braced_id = Some example_id"
    by code_simp+
  have none: "select_order stocked_shop missing_id = []"
    by (simp add: select_order_def stocked_shop_def example_header_def example_id_def
        missing_id_def)
  have some: "select_order stocked_shop example_id = [example_header]"
    by (simp add: select_order_def stocked_shop_def example_header_def)
  have s1: "get_prop (Obj [(''status'', Str ''shipped'')]) ''status'' = Some (Str ''shipped'')"
    and e1: "get_prop (Obj [(''status'', Str ''shipped'')]) ''customer_email'' = Some Undefined"
    and s2: "get_prop (Obj [(''status'', Str ''refunded'')]) ''status'' = Some (Str ''refunded'')"
    and e2: "get_prop (Obj [(''status'', Str ''refunded'')]) ''customer_email'' = Some Undefined"
    and s3: "get_prop (Obj []) ''status'' = Some Undefined"
    and e3: "get_prop (Obj []) ''customer_email'' = Some Undefined"
    by simp_all
  have bad: "Str ''refunded'' \<notin> Str ` {''pending'', ''confirmed'', ''processing'', ''shipped'',
                                         ''delivered'', ''cancelled''}"
    by auto
  from put_orders_id_rejections[OF s1 e1, where path_id = missing_id and env = shop_env
         and st = stocked_shop] um x none
  have a: "put_orders_id shop_env stocked_shop missing_id (Obj [(''status'', Str ''shipped'')])
             = (Json 404 (Error ''Order not found''), stocked_shop)"
    by blast
  from put_orders_id_rejections[OF s2 e2, where path_id = braced_id and env = shop_env
         and st = stocked_shop] ub x some bad
  have b: "put_orders_id shop_env stocked_shop braced_id (Obj [(''status'', Str ''refunded'')])
     = (Json 400 (InvalidStatus ''Invalid status''
          [''pending'', ''confirmed'', ''processing'', ''shipped'', ''delivered'',
           ''cancelled'']), stocked_shop)"
    by auto
  from put_orders_id_rejections[OF s3 e3, where path_id = braced_id and env = shop_env
         and st = stocked_shop] ub x some
  have c: "put_orders_id shop_env stocked_shop braced_id (Obj [])
     = (Json 400 (Error ''No fields to update''), stocked_shop)"
    by auto
  from um ub none some a b c show ?thesis
    by simp
qed

text \<open>
  The claim as stated fails on an id that is not a UUID: no order has the id \<^verbatim>\<open>zz\<close>, the
  store executes every statement it can read, and the answer is 500, not 404.
\<close>

theorem put_orders_id_malformed_id:
  "select_order stocked_shop ''zz'' = [] \<and> uuid_in ''zz'' = None \<and>
   put_orders_id shop_env stocked_shop ''zz'' (Obj [(''status'', Str ''shipped'')])
     = (Json 500 (Error ''Internal server error''), stocked_shop)"
proof -
  have "uuid_in ''zz'' = None"
    by code_simp
  then show ?thesis
    by (simp add: put_orders_id_def internal_error_def select_order_def stocked_shop_def
        example_header_def example_id_def)
qed

text \<open>
  C5. A successful update of an existing order changes the supplied fields and nothing
  else: the returned row is the stored row, its \<^verbatim>\<open>id\<close>, \<^verbatim>\<open>order_number\<close>, \<^verbatim>\<open>user_id\<close>,
  \<^verbatim>\<open>total_amount\<close> and \<^verbatim>\<open>created_at\<close> are those of the row before, \<^verbatim>\<open>status\<close> and
  \<^verbatim>\<open>customer_email\<close> are the new values when supplied and the old ones when not, and the
  other orders, the items and the counter are as before.
\<close>

theorem put_order_changes_only_supplied:
  assumes "put_order env st i req_body = (Json 200 b, st')"
      and "get_prop req_body ''status'' = Some s"
      and "get_prop req_body ''customer_email'' = Some e"
      and "select_order st i = r # rs"
  shows "\<exists>r'. b = OrderWrap (Some r') \<and>
           select_order st' i = r' # map (set_fields (supplied s) (supplied e)) rs \<and>
           id' r' = id' r \<and> order_number r' = order_number r \<and> user_id r' = user_id r \<and>
           total_amount r' = total_amount r \<and> created_at r' = created_at r \<and>
           status r' = (if s = Undefined then status r else s) \<and>
           customer_email r' = (if e = Undefined then customer_email r else e) \<and>
           filter (\<lambda>x. id' x \<noteq> i) (orders st') = filter (\<lambda>x. id' x \<noteq> i) (orders st) \<and>
           length (orders st') = length (orders st) \<and>
           order_items st' = order_items st \<and> orders_total st' = orders_total st"
proof -
  from assms have st': "st' = update_order st (supplied s) (supplied e) i"
    and b: "b = OrderWrap (case select_order st' i of [] \<Rightarrow> None | x # _ \<Rightarrow> Some x)"
    by (auto simp: put_order_def Let_def internal_error_def split: if_splits)
  have sel: "select_order st' i
      = set_fields (supplied s) (supplied e) r # map (set_fields (supplied s) (supplied e)) rs"
    using assms(4) by (simp add: st' select_update)
  have oth: "filter (\<lambda>x. id' x \<noteq> i) (orders st') = filter (\<lambda>x. id' x \<noteq> i) (orders st)"
    unfolding st' update_order_def by (simp add: filter_map_other set_fields_id)
  show ?thesis
    using b sel oth
    by (auto simp: st' update_order_def set_fields_def supplied_def pg_param_def)
qed

theorem put_order_changes_only_supplied_witness:
  "put_order shop_env stocked_shop example_id (Obj [(''status'', Str ''shipped'')])
     = (Json 200 (OrderWrap (Some shipped_header)), stocked_shop\<lparr>orders := [shipped_header]\<rparr>) \<and>
   select_order stocked_shop example_id = [example_header] \<and>
   (\<exists>r'. OrderWrap (Some shipped_header) = OrderWrap (Some r') \<and>
      select_order (stocked_shop\<lparr>orders := [shipped_header]\<rparr>) example_id = [r'] \<and>
      order_number r' = ''LUGX-1700000000000'' \<and> user_id r' = Str ''u1'' \<and>
      total_amount r' = Fin 24.99 \<and> created_at r' = 1700000000 \<and>
      status r' = Str ''shipped'' \<and> customer_email r' = Null)"
proof -
  have run: "put_order shop_env stocked_shop example_id (Obj [(''status'', Str ''shipped'')])
     = (Json 200 (OrderWrap (Some shipped_header)), stocked_shop\<lparr>orders := [shipped_header]\<rparr>)"
    by (simp add: put_order_def select_order_def update_order_def set_fields_def supplied_def
        pg_param_def js_includes_def validStatuses_def shop_env_def stocked_shop_def
        shipped_header_def example_header_def)
  have s: "get_prop (Obj [(''status'', Str ''shipped'')]) ''status'' = Some (Str ''shipped'')"
    and e: "get_prop (Obj [(''status'', Str ''shipped'')]) ''customer_email'' = Some Undefined"
    by simp_all
  have sel: "select_order stocked_shop example_id = [example_header]"
    by (simp add: select_order_def stocked_shop_def example_header_def)
  from put_order_changes_only_supplied[OF run s e sel] run sel
  show ?thesis by (simp add: example_header_def)
qed

subsection \<open>Order deletion\<close>

text \<open>Deletion, for an identifier as the store holds it.\<close>

lemma delete_order_removes:
  assumes "executes env Begin" and "executes env (SelectOrder i)"
  shows "(select_order st i = [] \<longrightarrow>
            delete_order env st i = (Json 404 (Error ''Order not found''), st)) \<and>
         (\<forall>r. distinct (map id' (orders st)) \<and> r \<in> set (orders st) \<and> id' r = i \<and>
               executes env (DeleteOrder i) \<and> executes env Commit \<longrightarrow>
            (\<exists>st'. delete_order env st i
                       = (Json 200 (Deleted ''Order deleted successfully'' r), st') \<and>
                   length (orders st') + 1 = length (orders st) \<and>
                   length (order_items st') + length (select_items st i)
                     = length (order_items st) \<and>
                   orders st' = filter (\<lambda>x. x \<noteq> r) (orders st) \<and>
                   order_items st' = filter (\<lambda>x. order_id x \<noteq> i) (order_items st) \<and>
                   orders_total st' = orders_total st \<and>
                   get_order env st' i = Json 404 (Error ''Order not found'') \<and>
                   select_items st' i = []))"
proof (intro conjI impI allI)
  assume "select_order st i = []"
  with assms show "delete_order env st i = (Json 404 (Error ''Order not found''), st)"
    by (simp add: delete_order_def)
next
  fix r
  assume h: "distinct (map id' (orders st)) \<and> r \<in> set (orders st) \<and> id' r = i \<and>
             executes env (DeleteOrder i) \<and> executes env Commit"
  then have sel: "select_order st i = [r]"
    using select_distinct[of "orders st" r] by (auto simp: select_order_def)
  have same: "filter (\<lambda>x. id' x \<noteq> i) (orders st) = filter (\<lambda>x. x \<noteq> r) (orders st)"
  proof (rule filter_cong[OF refl])
    fix x
    assume "x \<in> set (orders st)"
    with h show "(id' x \<noteq> i) = (x \<noteq> r)"
      using distinct_map[of id' "orders st"] by (auto simp: inj_on_def)
  qed
  have len: "length (filter (\<lambda>x. id' x \<noteq> i) (orders st)) + 1 = length (orders st)"
    using length_filter_split[of "\<lambda>x. id' x = i" "orders st"] sel
    by (simp add: select_order_def)
  have leni: "length (filter (\<lambda>x. order_id x \<noteq> i) (order_items st))
                + length (select_items st i) = length (order_items st)"
    using length_filter_split[of "\<lambda>x. order_id x = i" "order_items st"]
    by (simp add: select_items_def)
  let ?st' = "delete_cascade st i"
  have "delete_order env st i = (Json 200 (Deleted ''Order deleted successfully'' r), ?st')"
    using assms h sel by (simp add: delete_order_def)
  moreover have "get_order env ?st' i = Json 404 (Error ''Order not found'')"
    using assms by (simp add: get_order_def select_order_def delete_cascade_def)
  moreover have "select_items ?st' i = []"
    by (simp add: select_items_def delete_cascade_def)
  ultimately show "\<exists>st'. delete_order env st i
                       = (Json 200 (Deleted ''Order deleted successfully'' r), st') \<and>
                   length (orders st') + 1 = length (orders st) \<and>
                   length (order_items st') + length (select_items st i)
                     = length (order_items st) \<and>
                   orders st' = filter (\<lambda>x. x \<noteq> r) (orders st) \<and>
                   order_items st' = filter (\<lambda>x. order_id x \<noteq> i) (order_items st) \<and>
                   orders_total st' = orders_total st \<and>
                   get_order env st' i = Json 404 (Error ''Order not found'') \<and>
                   select_items st' i = []"
    using len leni same by (auto simp: delete_cascade_def)
qed

text \<open>
  C6, as amended. Provided the store opens the transaction: a path id that is not a
  UUID is answered 500 and changes nothing. For a path id that is a UUID and a store
  that executes the statements of the handler: deleting an id that names no order is
  answered 404 and changes nothing; deleting an existing order (ids being unique, as the
  primary key has it) answers 200 with the deleted header, removes that header and every
  item of the order and nothing else, that is one row of \<^verbatim>\<open>orders\<close> and as many rows of
  \<^verbatim>\<open>order_items\<close> as the order had items, and afterwards fetching the order is answered
  404 and the order has no item left.
\<close>

theorem delete_orders_id_removes_header_and_items:
  assumes "executes env Begin"
  shows "(uuid_in path_id = None \<longrightarrow>
            delete_orders_id env st path_id = (Json 500 (Error ''Internal server error''), st)) \<and>
         (\<forall>i. uuid_in path_id = Some i \<and> executes env (SelectOrder i) \<longrightarrow>
            (select_order st i = [] \<longrightarrow>
               delete_orders_id env st path_id = (Json 404 (Error ''Order not found''), st)) \<and>
            (\<forall>r. distinct (map id' (orders st)) \<and> r \<in> set (orders st) \<and> id' r = i \<and>
                  executes env (DeleteOrder i) \<and> executes env Commit \<longrightarrow>
               (\<exists>st'. delete_orders_id env st path_id
                          = (Json 200 (Deleted ''Order deleted successfully'' r), st') \<and>
                      length (orders st') + 1 = length (orders st) \<and>
                      length (order_items st') + length (select_items st i)
                        = length (order_items st) \<and>
                      orders st' = filter (\<lambda>x. x \<noteq> r) (orders st) \<and>
                      order_items st' = filter (\<lambda>x. order_id x \<noteq> i) (order_items st) \<and>
                      orders_total st' = orders_total st \<and>
                      get_orders_id env st' path_id = Json 404 (Error ''Order not found'') \<and>
                      select_items st' i = [])))"
proof (intro conjI allI impI)
  assume "uuid_in path_id = None"
  then show "delete_orders_id env st path_id = (Json 500 (Error ''Internal server error''), st)"
    by (simp add: delete_orders_id_def internal_error_def)
next
  fix i
  assume h: "uuid_in path_id = Some i \<and> executes env (SelectOrder i)"
  then have route: "delete_orders_id env st path_id = delete_order env st i"
    "\<And>t. get_orders_id env t path_id = get_order env t i"
    by (simp_all add: delete_orders_id_def get_orders_id_def)
  from h have x: "executes env (SelectOrder i)"
    by simp
  note inner = delete_order_removes[OF assms x, where st = st]
  {
    assume "select_order st i = []"
    with inner show "delete_orders_id env st path_id = (Json 404 (Error ''Order not found''), st)"
      by (simp add: route)
  next
    fix r
    assume "distinct (map id' (orders st)) \<and> r \<in> set (orders st) \<and> id' r = i \<and>
            executes env (DeleteOrder i) \<and> executes env Commit"
    with inner show "\<exists>st'. delete_orders_id env st path_id
                          = (Json 200 (Deleted ''Order deleted successfully'' r), st') \<and>
                      length (orders st') + 1 = length (orders st) \<and>
                      length (order_items st') + length (select_items st i)
                        = length (order_items st) \<and>
                      orders st' = filter (\<lambda>x. x \<noteq> r) (orders st) \<and>
                      order_items st' = filter (\<lambda>x. order_id x \<noteq> i) (order_items st) \<and>
                      orders_total st' = orders_total st \<and>
                      get_orders_id env st' path_id = Json 404 (Error ''Order not found'') \<and>
                      select_items st' i = []"
      unfolding route by blast
  }
qed

text \<open>
  The order of the example has two items: deleting it, by its id in another spelling,
  removes three rows. A well-formed id that names no order leaves the state as it is.
\<close>

theorem delete_orders_id_removes_header_and_items_witness:
  "uuid_in missing_id = Some missing_id \<and> select_order stocked_shop missing_id = [] \<and>
   delete_orders_id shop_env stocked_shop missing_id
     = (Json 404 (Error ''Order not found''), stocked_shop) \<and>
   uuid_in braced_id = Some example_id \<and>
   distinct (map id' (orders stocked_shop)) \<and> example_header \<in> set (orders stocked_shop) \<and>
   length (orders stocked_shop) = 1 \<and> length (order_items stocked_shop) = 2 \<and>
   length (select_items stocked_shop example_id) = 2 \<and>
   delete_orders_id shop_env stocked_shop braced_id
     = (Json 200 (Deleted ''Order deleted successfully'' example_header),
        \<lparr> orders = [], order_items = [], orders_total = 1 \<rparr>) \<and>
   get_orders_id shop_env \<lparr> orders = [], order_items = [], orders_total = 1 \<rparr> braced_id
     = Json 404 (Error ''Order not found'')"
proof -
  have x: "executes shop_env q" for q
    by (simp add: shop_env_def)
  have um: "uuid_in missing_id = Some missing_id"
    and ub: "uuid_in braced_id = Some example_id"
    by code_simp+
  have none: "select_order stocked_shop missing_id = []"
    by (simp add: select_order_def stocked_shop_def example_header_def example_id_def
        missing_id_def)
  have d: "distinct (map id' (orders stocked_shop))"
    and m: "example_header \<in> set (orders stocked_shop)"
    and i: "id' example_header = example_id"
    and l: "length (orders stocked_shop) = 1" "length (order_items stocked_shop) = 2"
    and n: "length (select_items stocked_shop example_id) = 2"
    by (simp_all add: stocked_shop_def example_header_def select_items_def example_items_def)
  from delete_orders_id_removes_header_and_items[OF x, where path_id = missing_id
         and st = stocked_shop] um x none
  have a: "delete_orders_id shop_env stocked_shop missing_id
             = (Json 404 (Error ''Order not found''), stocked_shop)"
    by blast
  from delete_orders_id_removes_header_and_items[OF x, where path_id = braced_id
         and st = stocked_shop] ub d m i x
  obtain st' where run: "delete_orders_id shop_env stocked_shop braced_id
        = (Json 200 (Deleted ''Order deleted successfully'' example_header), st')"
    and after: "get_orders_id shop_env st' braced_id = Json 404 (Error ''Order not found'')"
    by blast
  have st': "st' = \<lparr> orders = [], order_items = [], orders_total = 1 \<rparr>"
    using run ub
    by (simp add: delete_orders_id_def delete_order_def delete_cascade_def select_order_def
        shop_env_def stocked_shop_def example_header_def example_items_def)
  from um ub none d m l n a run after show ?thesis
    by (simp add: st')
qed

text \<open>
  The claim as stated fails on an id that is not a UUID: no order has the id \<^verbatim>\<open>zz\<close>, the
  store executes every statement it can read, and the answer is 500, not 404.
\<close>

theorem delete_orders_id_malformed_id:
  "select_order stocked_shop ''zz'' = [] \<and> uuid_in ''zz'' = None \<and>
   delete_orders_id shop_env stocked_shop ''zz''
     = (Json 500 (Error ''Internal server error''), stocked_shop)"
proof -
  have "uuid_in ''zz'' = None"
    by code_simp
  then show ?thesis
    by (simp add: delete_orders_id_def internal_error_def select_order_def stocked_shop_def
        example_header_def example_id_def)
qed

section \<open>Properties of the analytics service\<close>

subsection \<open>Auxiliary facts\<close>

text \<open>
  Escaping on its own is right: a reader of quoted literals gets the string back. The
  truncation comes after the escaping, and agrees with truncating the string only when
  the string has no quote.
\<close>

lemma escape_quotes_read_back:
  "tokens (Inside a) (escape_quotes s @ [sq]) = Some [Lit (a @ s)]"
  by (induction s arbitrary: a) (auto simp: escape_quotes_def)

lemma escaped_plain:
  assumes "sq \<notin> set s"
  shows "escaped n s = take n s"
proof -
  from assms have "escape_quotes s = s"
    by (induction s) (auto simp: escape_quotes_def)
  then show ?thesis by (simp add: escaped_def)
qed





















text \<open>The parts of the bulk delete that hold for every store.\<close>

lemma delete_analytics_requires_filter:
  assumes "get_prop req_body ''user_id'' = Some uid"
      and "get_prop req_body ''session_id'' = Some sid"
      and "get_prop req_body ''before_date'' = Some bd"
      and "\<not> truthy uid" "\<not> truthy sid" "\<not> truthy bd"
  shows "delete_analytics env rows req_body
           = (AJson 400 (Failure ''At least one filter required: user_id, session_id, or before_date''),
              rows, [])"
  using assms by (simp add: delete_analytics_def)

lemma delete_analytics_count:
  assumes "delete_analytics env rows req_body = (AJson 200 (Removed m c b), rows', issued)"
  shows "\<exists>w matches n. issued = [countQuery w, deleteQuery w] \<and>
           read_where env w = Some matches \<and> n = length (filter matches rows) \<and>
           c = count_total env n \<and> rows' = filter (\<lambda>r. \<not> matches r) rows \<and>
           length rows' + n = length rows"
proof -
  from assms obtain w matches where w: "issued = [countQuery w, deleteQuery w]"
    "read_where env w = Some matches" "c = count_total env (length (filter matches rows))"
    "rows' = filter (\<lambda>r. \<not> matches r) rows"
    by (auto simp: delete_analytics_def delete_failed_def Let_def
        split: option.splits if_splits)
  moreover have "length (filter (\<lambda>r. \<not> matches r) rows) + length (filter matches rows)
                   = length rows"
    by (rule length_filter_split)
  ultimately show ?thesis by auto
qed

lemma count_is_not_delete: "countQuery w \<noteq> deleteQuery w'"
  by (simp add: countQuery_def deleteQuery_def)

subsection \<open>Bulk delete\<close>

text \<open>
  C7. The claim: a bulk delete without any of the three filters is rejected, one with
  a \<^verbatim>\<open>before_date\<close> removes only rows strictly older than that cutoff, and the reported
  count is the number of rows removed. The first and the last part hold for every store
  (\<open>delete_analytics_requires_filter\<close>, \<open>delete_analytics_count\<close>). The middle part
  fails: \<^verbatim>\<open>user_id\<close> and \<^verbatim>\<open>session_id\<close> are quote-escaped, \<^verbatim>\<open>before_date\<close> is put between
  the quotes as it is. With the cutoff text \<^verbatim>\<open>2000-01-01 00:00:00' OR '1'='1\<close> the filter
  becomes a disjunction that holds of every row, and the event of 2026 is counted and
  removed; with the plain cutoff \<^verbatim>\<open>2000-01-01 00:00:00\<close> the same event stays.
\<close>

theorem delete_analytics_before_date_unescaped:
  "whereClause sql_store Undefined Undefined (Str injected_date) = Some injected_where \<and>
   map_of new_row ''timestamp'' = Some ''2026-11-03 09:05:07'' \<and>
   delete_analytics sql_store [new_row] injected_delete
     = (AJson 200 (Removed ''Analytics data deleted successfully'' (Num (Fin 1)) injected_delete), [],
        [countQuery injected_where, deleteQuery injected_where]) \<and>
   delete_analytics sql_store [new_row] plain_delete
     = (AJson 200 (NoneFound ''No records found matching the criteria'' 0), [new_row],
        [countQuery plain_where])"
  by code_simp

theorem delete_analytics_before_date_unescaped_witness:
  "fst (snd (delete_analytics sql_store [new_row] injected_delete)) = [] \<and>
   fst (snd (delete_analytics sql_store [new_row] plain_delete)) = [new_row]"
  using delete_analytics_before_date_unescaped by simp

text \<open>
  The short cut of a bulk delete that matches nothing, for a store that answers a count
  of no rows as the number 0: the answer is 200 with \<^verbatim>\<open>deleted_count\<close> 0, the rows are what
  they were, and the only text posted is the count.
\<close>

lemma delete_analytics_zero_count:
  assumes "get_prop req_body ''user_id'' = Some uid"
      and "get_prop req_body ''session_id'' = Some sid"
      and "get_prop req_body ''before_date'' = Some bd"
      and "truthy uid \<or> truthy sid \<or> truthy bd"
      and "whereClause env uid sid bd = Some w"
      and "delivered env 0"
      and "read_where env w = Some matches"
      and "\<forall>r \<in> set rows. \<not> matches r"
      and "count_total env 0 = Num (Fin 0)"
  shows "delete_analytics env rows req_body
           = (AJson 200 (NoneFound ''No records found matching the criteria'' 0), rows,
              [countQuery w]) \<and>
         (\<forall>w'. deleteQuery w' \<notin> set (snd (snd (delete_analytics env rows req_body))))"
proof -
  have "filter matches rows = []"
    using assms(8) by (simp add: filter_empty_conv)
  then have "delete_analytics env rows req_body
           = (AJson 200 (NoneFound ''No records found matching the criteria'' 0), rows,
              [countQuery w])"
    using assms by (auto simp: delete_analytics_def)
  then show ?thesis
    using count_is_not_delete[of w] by (metis empty_iff insert_iff list.simps(15) empty_set snd_conv)
qed

text \<open>
  C10. The claim: when the filters of a bulk delete match no row at the count step, no
  delete statement is issued and the answer reports \<^verbatim>\<open>deleted_count\<close> 0. The handler tests
  \<^verbatim>\<open>recordsToDelete === 0\<close> on the value it reads from the store's JSON answer. The count is
  a 64-bit integer, which the store's JSON answer carries as the string of its digits:
  the string \<^verbatim>\<open>"0"\<close> is not the number 0, the short cut is not taken, the delete statement
  is posted and the answer is that of a deletion, with \<^verbatim>\<open>deleted_count\<close> \<^verbatim>\<open>"0"\<close>. The stored
  event belongs to user \<^verbatim>\<open>u1\<close> and the delete is for user \<^verbatim>\<open>u2\<close>. (With a store that
  answers the count as a number the same request takes the short cut.)
\<close>

theorem delete_analytics_zero_match_posts_delete:
  "whereClause quoting_store (Str ''u2'') Undefined Undefined = Some other_user_where \<and>
   map_option (\<lambda>matches. filter matches [new_row]) (read_where quoting_store other_user_where)
     = Some [] \<and>
   count_total quoting_store 0 = Str ''0'' \<and>
   delete_analytics quoting_store [new_row] other_user_delete
     = (AJson 200 (Removed ''Analytics data deleted successfully'' (Str ''0'') other_user_delete),
        [new_row], [countQuery other_user_where, deleteQuery other_user_where]) \<and>
   delete_analytics sql_store [new_row] other_user_delete
     = (AJson 200 (NoneFound ''No records found matching the criteria'' 0), [new_row],
        [countQuery other_user_where])"
  by code_simp

theorem delete_analytics_zero_match_posts_delete_witness:
  "snd (snd (delete_analytics quoting_store [new_row] other_user_delete))
     = [countQuery other_user_where, deleteQuery other_user_where] \<and>
   fst (snd (delete_analytics quoting_store [new_row] other_user_delete)) = [new_row]"
  using delete_analytics_zero_match_posts_delete by simp

subsection \<open>Ingestion\<close>



text \<open>
  C9. The claim: the stored row holds the inputs cut to their first 100 (200, 500)
  characters, \<^verbatim>\<open>page_path\<close> standing in for an absent \<^verbatim>\<open>page_url\<close>. The handler doubles the
  quotes first and cuts afterwards, so the cut counts doubled quotes and what is stored
  can be shorter than the first 100 characters: the \<^verbatim>\<open>session_id\<close> of a hundred characters
  \<^verbatim>\<open>a'a'...a'\<close> is accepted and stored as its first 67 characters. (For a string without
  quotes the cut is the cut of the string: \<open>escaped_plain\<close>.)
\<close>

theorem post_analytics_truncates_after_escaping:
  "length quoted_id = 100 \<and> take 100 quoted_id = quoted_id \<and>
   escaped 100 quoted_id = concat (replicate 33 [CHR ''a'', sq, sq]) @ ''a'' \<and>
   post_analytics sql_store [] quoted_event
     = (AJson 200 (Success ''Event stored in ClickHouse''),
        [zip columns [take 67 quoted_id, ''u1'', ''page_view'', ''/shop'', ''/shop'',
                      ''2026-11-03 09:05:07'', ''{}'']],
        [insert_query (escaped 100 quoted_id) ''u1'' ''page_view'' ''/shop'' ''/shop''
           ''2026-11-03 09:05:07'' ''{}'']) \<and>
   length (take 67 quoted_id) = 67"
  by code_simp

theorem post_analytics_truncates_after_escaping_witness:
  "map (\<lambda>row. map_option length (map_of row ''session_id''))
      (fst (snd (post_analytics sql_store [] quoted_event))) = [Some 67]"
  using post_analytics_truncates_after_escaping
  by (simp add: columns_def)

end
